theory Spec2Isabelle
  imports Complex_Main
begin

section \<open>JavaScript numbers\<close>

text \<open>
  A JavaScript number is modelled as a real number or one of the three special values of
  IEEE 754 that the aggregation code can produce: the two infinities and NaN. The
  special values follow IEEE 754: NaN is absorbing, \<open>Infinity - Infinity\<close> and
  \<open>Infinity * 0\<close> are NaN. Finite arithmetic is exact here: the rounding of a sum,
  product or quotient to 53 bits, the overflow of such a result to an infinity and the
  sign of zero are left out. The properties below that are stated for all inputs rest
  only on facts that hold for rounded arithmetic as well (a value plus zero is the value,
  NaN is absorbing, rounding is monotone), or carry a hypothesis that keeps the results
  in range.
\<close>

datatype jsnum = Fin real | PInf | NInf | NaN

fun js_neg :: "jsnum \<Rightarrow> jsnum" where
  "js_neg (Fin a) = Fin (- a)"
| "js_neg PInf = NInf"
| "js_neg NInf = PInf"
| "js_neg NaN = NaN"

fun js_add :: "jsnum \<Rightarrow> jsnum \<Rightarrow> jsnum" where
  "js_add (Fin a) (Fin b) = Fin (a + b)"
| "js_add (Fin a) PInf = PInf"
| "js_add (Fin a) NInf = NInf"
| "js_add PInf (Fin b) = PInf"
| "js_add PInf PInf = PInf"
| "js_add PInf NInf = NaN"
| "js_add NInf (Fin b) = NInf"
| "js_add NInf NInf = NInf"
| "js_add NInf PInf = NaN"
| "js_add NaN y = NaN"
| "js_add x NaN = NaN"

definition js_sub :: "jsnum \<Rightarrow> jsnum \<Rightarrow> jsnum" where
  "js_sub x y = js_add x (js_neg y)"

text \<open>The product of an infinity and a finite number takes the sign of the finite
  factor; with the factor zero it is NaN.\<close>

definition inf_times :: "jsnum \<Rightarrow> real \<Rightarrow> jsnum" where
  "inf_times i b = (if b = 0 then NaN else if 0 < b then i else js_neg i)"

fun js_mul :: "jsnum \<Rightarrow> jsnum \<Rightarrow> jsnum" where
  "js_mul (Fin a) (Fin b) = Fin (a * b)"
| "js_mul (Fin a) PInf = inf_times PInf a"
| "js_mul (Fin a) NInf = inf_times NInf a"
| "js_mul PInf (Fin b) = inf_times PInf b"
| "js_mul PInf PInf = PInf"
| "js_mul PInf NInf = NInf"
| "js_mul NInf (Fin b) = inf_times NInf b"
| "js_mul NInf NInf = PInf"
| "js_mul NInf PInf = NInf"
| "js_mul NaN y = NaN"
| "js_mul x NaN = NaN"

text \<open>Division: a finite number over an infinity is zero, an infinity over an infinity
  and zero over zero are NaN, and a non-zero number over zero is an infinity (zero is
  taken as positive).\<close>

fun js_div :: "jsnum \<Rightarrow> jsnum \<Rightarrow> jsnum" where
  "js_div (Fin a) (Fin b) =
     (if b = 0 then (if a = 0 then NaN else if 0 < a then PInf else NInf) else Fin (a / b))"
| "js_div (Fin a) PInf = Fin 0"
| "js_div (Fin a) NInf = Fin 0"
| "js_div PInf (Fin b) = (if 0 \<le> b then PInf else NInf)"
| "js_div NInf (Fin b) = (if 0 \<le> b then NInf else PInf)"
| "js_div PInf PInf = NaN"
| "js_div PInf NInf = NaN"
| "js_div NInf PInf = NaN"
| "js_div NInf NInf = NaN"
| "js_div NaN y = NaN"
| "js_div x NaN = NaN"

text \<open>The comparison \<open>x <= y\<close>: false as soon as one side is NaN.\<close>

fun js_le :: "jsnum \<Rightarrow> jsnum \<Rightarrow> bool" where
  "js_le (Fin a) (Fin b) = (a \<le> b)"
| "js_le (Fin a) PInf = True"
| "js_le (Fin a) NInf = False"
| "js_le PInf (Fin b) = False"
| "js_le PInf PInf = True"
| "js_le PInf NInf = False"
| "js_le NInf (Fin b) = True"
| "js_le NInf NInf = True"
| "js_le NInf PInf = True"
| "js_le NaN y = False"
| "js_le x NaN = False"

text \<open>A number is truthy unless it is zero or NaN.\<close>

definition truthy_num :: "jsnum \<Rightarrow> bool" where
  "truthy_num x = (x \<noteq> NaN \<and> x \<noteq> Fin 0)"

section \<open>Strings that may be missing, and \<open>parseFloat\<close>\<close>

text \<open>
  A field of a JSON object that holds a string may also be absent (\<open>undefined\<close>) or
  \<open>null\<close>. Only a non-empty string is truthy. Used as a property key, \<open>undefined\<close>
  and \<open>null\<close> become the strings of these names.
\<close>

datatype jsstr = Undefined | Null | Str string

fun truthy_str :: "jsstr \<Rightarrow> bool" where
  "truthy_str (Str s) = (s \<noteq> [])"
| "truthy_str Undefined = False"
| "truthy_str Null = False"

fun property_key :: "jsstr \<Rightarrow> string" where
  "property_key (Str s) = s"
| "property_key Undefined = ''undefined''"
| "property_key Null = ''null''"


text \<open>
  \<open>parseFloat\<close> skips leading white space and reads the longest prefix that is a
  decimal literal: an optional sign, then \<open>Infinity\<close>, or digits with an optional
  fraction and an optional exponent. An exponent counts only when it has a digit. With
  no such prefix the result is NaN. Strings are ASCII here. The value read is brought
  into the range of the doubles as rounding to nearest does: from \<open>2^1024 - 2^970\<close>
  on (halfway between the largest double and \<open>2^1024\<close>) it is an infinity, up to
  \<open>2^-1075\<close> (half the smallest positive double) it is zero. In between, the value
  keeps all its digits.
\<close>

definition is_ws :: "char \<Rightarrow> bool" where
  "is_ws c = (c \<in> set [CHR 0x09, CHR 0x0A, CHR 0x0B, CHR 0x0C, CHR 0x0D, CHR 0x20])"

definition is_digit :: "char \<Rightarrow> bool" where
  "is_digit c = (c \<in> set ''0123456789'')"

definition digit_val :: "char \<Rightarrow> nat" where
  "digit_val c = of_char c - 48"

definition digits_val :: "string \<Rightarrow> nat" where
  "digits_val ds = foldl (\<lambda>n c. 10 * n + digit_val c) 0 ds"

definition signed_digits :: "bool \<Rightarrow> string \<Rightarrow> int" where
  "signed_digits negative s =
     (let ds = takeWhile is_digit s
      in if ds = [] then 0
         else if negative then - int (digits_val ds) else int (digits_val ds))"

definition scan_exponent :: "string \<Rightarrow> int" where
  "scan_exponent s =
     (case s of
        [] \<Rightarrow> 0
      | c # t \<Rightarrow>
          if c = CHR ''e'' \<or> c = CHR ''E'' then
            (case t of
               [] \<Rightarrow> 0
             | d # u \<Rightarrow>
                 if d = CHR ''+'' then signed_digits False u
                 else if d = CHR ''-'' then signed_digits True u
                 else signed_digits False t)
          else 0)"

definition scale10 :: "real \<Rightarrow> int \<Rightarrow> real" where
  "scale10 m e = (if e < 0 then m / 10 ^ nat (- e) else m * 10 ^ nat e)"

definition overflow_bound :: real where
  "overflow_bound = 2 ^ 1024 - 2 ^ 970"

definition underflow_bound :: real where
  "underflow_bound = 1 / 2 ^ 1075"

definition to_range :: "real \<Rightarrow> jsnum" where
  "to_range v =
     (if overflow_bound \<le> v then PInf else if v \<le> underflow_bound then Fin 0 else Fin v)"

definition parse_unsigned :: "string \<Rightarrow> jsnum" where
  "parse_unsigned s =
     (if take 8 s = ''Infinity'' then PInf
      else
        let ip = takeWhile is_digit s;
            r1 = dropWhile is_digit s;
            fp = (case r1 of [] \<Rightarrow> [] | c # t \<Rightarrow> if c = CHR ''.'' then takeWhile is_digit t else []);
            r2 = (case r1 of [] \<Rightarrow> [] | c # t \<Rightarrow> if c = CHR ''.'' then dropWhile is_digit t else r1)
        in if ip = [] \<and> fp = [] then NaN
           else to_range
                  (scale10 (real (digits_val ip) + real (digits_val fp) / 10 ^ length fp)
                     (scan_exponent r2)))"

definition parseFloat_string :: "string \<Rightarrow> jsnum" where
  "parseFloat_string s =
     (case dropWhile is_ws s of
        [] \<Rightarrow> NaN
      | c # r \<Rightarrow>
          if c = CHR ''+'' then parse_unsigned r
          else if c = CHR ''-'' then js_neg (parse_unsigned r)
          else parse_unsigned (c # r))"

fun parseFloat :: "jsstr \<Rightarrow> jsnum" where
  "parseFloat (Str s) = parseFloat_string s"
| "parseFloat Undefined = NaN"
| "parseFloat Null = NaN"

section \<open>The data model\<close>

text \<open>
  Orders and line items as the commerce platform sends them: prices are decimal strings,
  the customer's email and the SKU may be missing, the quantity is an integer.
\<close>

record line_item =
  sku :: jsstr
  quantity :: int
  price :: jsstr

record order =
  total_price :: jsstr
  email :: jsstr
  line_items :: "line_item list"

text \<open>
  The stored settings of a shop. Both columns may be null, and a shop may have no
  settings at all (\<open>findUnique\<close> then returns null, here \<open>None\<close>). \<open>customCOGS\<close> is a
  plain object whose own keys are SKUs and whose values are unit costs; the map holds its
  own keys.
\<close>

record store_settings =
  defaultCOGSPercentage :: "jsnum option"
  customCOGS :: "(string \<rightharpoonup> jsnum) option"

record dashboard_metrics =
  totalRevenue :: jsnum
  totalCOGS :: jsnum
  grossProfit :: jsnum
  newCustomerRevenue :: jsnum
  returningCustomerRevenue :: jsnum
  orderCount :: nat
  averageOrderValue :: jsnum

section \<open>\<open>calculateDashboardMetrics\<close>\<close>

text \<open>
  Reading a property of a plain object finds an own key first and then the properties
  that every plain object inherits from \<open>Object.prototype\<close>. These are functions, and
  under \<open>__proto__\<close> the prototype object itself: all of them are truthy, and as
  numbers all of them are NaN.
\<close>

definition object_prototype_keys :: "string list" where
  "object_prototype_keys =
     [''constructor'', ''__defineGetter__'', ''__defineSetter__'', ''hasOwnProperty'',
      ''__lookupGetter__'', ''__lookupSetter__'', ''isPrototypeOf'',
      ''propertyIsEnumerable'', ''toString'', ''valueOf'', ''__proto__'',
      ''toLocaleString'']"

datatype jsprop = Missing | Own jsnum | Inherited

definition get_property :: "(string \<rightharpoonup> jsnum) \<Rightarrow> string \<Rightarrow> jsprop" where
  "get_property obj k =
     (case obj k of
        Some v \<Rightarrow> Own v
      | None \<Rightarrow> if k \<in> set object_prototype_keys then Inherited else Missing)"

text \<open>
  The value of \<open>storeSettings?.customCOGS?.[sku]\<close>: \<open>Missing\<close> stands for
  \<open>undefined\<close>, which the optional chain yields when the settings or the mapping is
  missing, and which the property read yields for a key that is neither own nor inherited.
\<close>

definition custom_lookup :: "store_settings option \<Rightarrow> jsstr \<Rightarrow> jsprop" where
  "custom_lookup storeSettings k =
     (case storeSettings of
        None \<Rightarrow> Missing
      | Some s \<Rightarrow>
          (case customCOGS s of
             None \<Rightarrow> Missing
           | Some m \<Rightarrow> get_property m (property_key k)))"

text \<open>The value of \<open>storeSettings?.defaultCOGSPercentage\<close>, a column of the stored row.\<close>

definition default_lookup :: "store_settings option \<Rightarrow> jsprop" where
  "default_lookup storeSettings =
     (case storeSettings of
        None \<Rightarrow> Missing
      | Some s \<Rightarrow> (case defaultCOGSPercentage s of None \<Rightarrow> Missing | Some x \<Rightarrow> Own x))"

text \<open>A looked-up value passes an \<open>if\<close> when it is there and truthy. What passes is
  given as the number that the arithmetic after the \<open>if\<close> sees.\<close>

definition if_truthy :: "jsprop \<Rightarrow> jsnum option" where
  "if_truthy v =
     (case v of
        Missing \<Rightarrow> None
      | Own x \<Rightarrow> if truthy_num x then Some x else None
      | Inherited \<Rightarrow> Some NaN)"

text \<open>The body of the inner loop up to the assignment of \<open>unitCOGS\<close>: the custom cost
  of the SKU when that is truthy, else the default percentage of the price when that is
  truthy, else the initial 0.\<close>

definition unitCOGS :: "store_settings option \<Rightarrow> line_item \<Rightarrow> jsnum" where
  "unitCOGS storeSettings item =
     (case if_truthy (custom_lookup storeSettings (sku item)) of
        Some c \<Rightarrow> c
      | None \<Rightarrow>
          (case if_truthy (default_lookup storeSettings) of
             Some p \<Rightarrow> js_mul (parseFloat (price item)) (js_div p (Fin 100))
           | None \<Rightarrow> Fin 0))"

text \<open>What one line item adds to \<open>orderCOGS\<close>: \<open>unitCOGS * quantity\<close>.\<close>

definition itemCOGS :: "store_settings option \<Rightarrow> line_item \<Rightarrow> jsnum" where
  "itemCOGS storeSettings item =
     js_mul (unitCOGS storeSettings item) (Fin (of_int (quantity item)))"

definition orderCOGS :: "store_settings option \<Rightarrow> order \<Rightarrow> jsnum" where
  "orderCOGS storeSettings ord =
     foldl (\<lambda>acc item. js_add acc (itemCOGS storeSettings item)) (Fin 0) (line_items ord)"

text \<open>The variables the outer loop updates, with the set of emails seen so far.\<close>

record loop_state =
  revenue_sum :: jsnum
  cogs_sum :: jsnum
  new_sum :: jsnum
  returning_sum :: jsnum
  customerEmails :: "string set"

definition initial_state :: loop_state where
  "initial_state =
     \<lparr>revenue_sum = Fin 0, cogs_sum = Fin 0, new_sum = Fin 0, returning_sum = Fin 0,
      customerEmails = {}\<rparr>"

text \<open>One round of \<open>orders.forEach\<close>.\<close>

definition order_step :: "store_settings option \<Rightarrow> loop_state \<Rightarrow> order \<Rightarrow> loop_state" where
  "order_step storeSettings st ord =
     (let revenue = parseFloat (total_price ord);
          st1 = st\<lparr>revenue_sum := js_add (revenue_sum st) revenue,
                   cogs_sum := js_add (cogs_sum st) (orderCOGS storeSettings ord)\<rparr>
      in if truthy_str (email ord) then
           (if property_key (email ord) \<in> customerEmails st1 then
              st1\<lparr>returning_sum := js_add (returning_sum st1) revenue\<rparr>
            else
              st1\<lparr>new_sum := js_add (new_sum st1) revenue,
                  customerEmails := insert (property_key (email ord)) (customerEmails st1)\<rparr>)
         else st1)"

definition run_orders :: "store_settings option \<Rightarrow> loop_state \<Rightarrow> order list \<Rightarrow> loop_state" where
  "run_orders storeSettings st orders = foldl (order_step storeSettings) st orders"

definition calculateDashboardMetrics ::
  "order list \<Rightarrow> store_settings option \<Rightarrow> dashboard_metrics" where
  "calculateDashboardMetrics orders storeSettings =
     (let st = run_orders storeSettings initial_state orders
      in \<lparr>totalRevenue = revenue_sum st,
          totalCOGS = cogs_sum st,
          grossProfit = js_sub (revenue_sum st) (cogs_sum st),
          newCustomerRevenue = new_sum st,
          returningCustomerRevenue = returning_sum st,
          orderCount = length orders,
          averageOrderValue =
            (if length orders > 0 then js_div (revenue_sum st) (Fin (real (length orders)))
             else Fin 0)\<rparr>)"

section \<open>The upload of a COGS file\<close>








section \<open>The aggregation of ad spend\<close>

text \<open>
  The insights endpoint of the ad platform is a parameter: for an account, a token and a
  date range it gives the rows of the answer, or \<open>None\<close> when the request throws (no
  connection, a refused token, an answer without rows). Everything thrown inside the
  \<open>try\<close> of \<open>fetchMetaAdSpend\<close> ends in its \<open>catch\<close>.
\<close>

record day_insight =
  spend :: jsstr

type_synonym insights_api = "string \<Rightarrow> string \<Rightarrow> string \<Rightarrow> string \<Rightarrow> day_insight list option"

record ad_account =
  platform :: string
  accountId :: string
  accessToken :: string

record ad_spend =
  total_spend :: jsnum
  daily :: "day_insight list"

record breakdown_entry = ad_spend +
  platform :: string

record ad_spend_summary =
  totalAdSpend :: jsnum
  breakdown :: "breakdown_entry list"

definition fetchMetaAdSpend ::
  "insights_api \<Rightarrow> string \<Rightarrow> string \<Rightarrow> string \<Rightarrow> string \<Rightarrow> ad_spend" where
  "fetchMetaAdSpend api account_id access_token startDate endDate =
     (case api account_id access_token startDate endDate of
        Some days \<Rightarrow>
          \<lparr>total_spend = foldl (\<lambda>sum day. js_add sum (parseFloat (spend day))) (Fin 0) days,
           daily = days\<rparr>
      | None \<Rightarrow> \<lparr>total_spend = Fin 0, daily = []\<rparr>)"

definition fetchGoogleAdSpend :: "string \<Rightarrow> string \<Rightarrow> string \<Rightarrow> string \<Rightarrow> ad_spend" where
  "fetchGoogleAdSpend account_id access_token startDate endDate =
     \<lparr>total_spend = Fin 0, daily = []\<rparr>"

text \<open>One round of each of the two loops of the handler of \<open>/api/ad-spend\<close>.\<close>

definition add_entry :: "string \<Rightarrow> ad_spend_summary \<Rightarrow> ad_spend \<Rightarrow> ad_spend_summary" where
  "add_entry label st fetched =
     \<lparr>totalAdSpend = js_add (totalAdSpend st) (total_spend fetched),
      breakdown = breakdown st @
        [\<lparr>total_spend = total_spend fetched, daily = daily fetched, platform = label\<rparr>]\<rparr>"

definition meta_step ::
  "insights_api \<Rightarrow> string \<Rightarrow> string \<Rightarrow> ad_spend_summary \<Rightarrow> ad_account \<Rightarrow> ad_spend_summary" where
  "meta_step api startDate endDate st account =
     add_entry ''Meta'' st
       (fetchMetaAdSpend api (accountId account) (accessToken account) startDate endDate)"

definition google_step ::
  "string \<Rightarrow> string \<Rightarrow> ad_spend_summary \<Rightarrow> ad_account \<Rightarrow> ad_spend_summary" where
  "google_step startDate endDate st account =
     add_entry ''Google'' st
       (fetchGoogleAdSpend (accountId account) (accessToken account) startDate endDate)"

definition ad_spend_handler ::
  "insights_api \<Rightarrow> ad_account list \<Rightarrow> string \<Rightarrow> string \<Rightarrow> ad_spend_summary" where
  "ad_spend_handler api adAccounts startDate endDate =
     foldl (google_step startDate endDate)
       (foldl (meta_step api startDate endDate)
          \<lparr>totalAdSpend = Fin 0, breakdown = []\<rparr>
          (filter (\<lambda>a. ad_account.platform a = ''meta'') adAccounts))
       (filter (\<lambda>a. ad_account.platform a = ''google'') adAccounts)"

section \<open>Notions used to state the properties\<close>

text \<open>The accounts in the order in which the handler reads them: all Meta accounts,
  then all Google accounts. Accounts of any other platform are never read.\<close>

definition call_order :: "ad_account list \<Rightarrow> ad_account list" where
  "call_order adAccounts =
     filter (\<lambda>a. ad_account.platform a = ''meta'') adAccounts @
     filter (\<lambda>a. ad_account.platform a = ''google'') adAccounts"

text \<open>What the handler fetches for an account of \<open>call_order\<close>, and the label it gives
  the entry.\<close>

definition fetch_for :: "insights_api \<Rightarrow> string \<Rightarrow> string \<Rightarrow> ad_account \<Rightarrow> ad_spend" where
  "fetch_for api startDate endDate a =
     (if ad_account.platform a = ''meta''
      then fetchMetaAdSpend api (accountId a) (accessToken a) startDate endDate
      else fetchGoogleAdSpend (accountId a) (accessToken a) startDate endDate)"

definition label_for :: "ad_account \<Rightarrow> string" where
  "label_for a = (if ad_account.platform a = ''meta'' then ''Meta'' else ''Google'')"

definition entry_for :: "insights_api \<Rightarrow> string \<Rightarrow> string \<Rightarrow> ad_account \<Rightarrow> breakdown_entry" where
  "entry_for api startDate endDate a =
     \<lparr>total_spend = total_spend (fetch_for api startDate endDate a),
      daily = daily (fetch_for api startDate endDate a),
      platform = label_for a\<rparr>"

text \<open>The read for an account fails: only a Meta account has an external read.\<close>

definition call_fails :: "insights_api \<Rightarrow> string \<Rightarrow> string \<Rightarrow> ad_account \<Rightarrow> bool" where
  "call_fails api startDate endDate a =
     (ad_account.platform a = ''meta'' \<and>
      api (accountId a) (accessToken a) startDate endDate = None)"

text \<open>The three sums of revenue are finite, and each of the two customer sums lies
  between zero and the total.\<close>

definition bounded_buckets :: "loop_state \<Rightarrow> bool" where
  "bounded_buckets st =
     (\<exists>t n r. revenue_sum st = Fin t \<and> new_sum st = Fin n \<and> returning_sum st = Fin r \<and>
              0 \<le> n \<and> n \<le> t \<and> 0 \<le> r \<and> r \<le> t)"

text \<open>
  The unit cost of an item is surely a finite number, also when products are rounded and
  can overflow: the truthy custom cost is finite; or no custom value is truthy and there
  is no truthy default percentage, so that the cost is the initial 0; or no custom value
  is truthy, the default percentage has a magnitude of at most 100 and the price parses
  to a finite number, so that the product is no larger than the price.
\<close>

fun is_fin :: "jsnum \<Rightarrow> bool" where
  "is_fin (Fin a) = True"
| "is_fin PInf = False"
| "is_fin NInf = False"
| "is_fin NaN = False"

fun magnitude_at_most :: "jsnum \<Rightarrow> real \<Rightarrow> bool" where
  "magnitude_at_most (Fin a) b = (\<bar>a\<bar> \<le> b)"
| "magnitude_at_most PInf b = False"
| "magnitude_at_most NInf b = False"
| "magnitude_at_most NaN b = False"

definition finite_unit_cost :: "store_settings option \<Rightarrow> line_item \<Rightarrow> bool" where
  "finite_unit_cost storeSettings item =
     (case if_truthy (custom_lookup storeSettings (sku item)) of
        Some c \<Rightarrow> is_fin c
      | None \<Rightarrow>
          (case if_truthy (default_lookup storeSettings) of
             Some p \<Rightarrow> magnitude_at_most p 100 \<and> is_fin (parseFloat (price item))
           | None \<Rightarrow> True))"

section \<open>Sample inputs\<close>






text \<open>Three linked accounts, and two states of the insights endpoint: one in which the
  read for \<open>act_1\<close> fails, one in which every read answers with two days of spend.\<close>

definition sample_accounts :: "ad_account list" where
  "sample_accounts =
     [\<lparr>ad_account.platform = ''meta'', accountId = ''act_1'', accessToken = ''t1''\<rparr>,
      \<lparr>ad_account.platform = ''google'', accountId = ''g_1'', accessToken = ''t2''\<rparr>,
      \<lparr>ad_account.platform = ''meta'', accountId = ''act_2'', accessToken = ''t3''\<rparr>]"

definition healthy_api :: insights_api where
  "healthy_api account_id access_token startDate endDate =
     Some [\<lparr>spend = Str ''12.50''\<rparr>, \<lparr>spend = Str ''7.50''\<rparr>]"

definition failing_api :: insights_api where
  "failing_api account_id access_token startDate endDate =
     (if account_id = ''act_1'' then None
      else Some [\<lparr>spend = Str ''12.50''\<rparr>, \<lparr>spend = Str ''7.50''\<rparr>])"

section \<open>Basic facts\<close>

lemmas parse_defs = parseFloat_string_def parse_unsigned_def scan_exponent_def scale10_def
  signed_digits_def digits_val_def digit_val_def is_digit_def is_ws_def to_range_def
  overflow_bound_def underflow_bound_def

lemmas cogs_defs = unitCOGS_def itemCOGS_def orderCOGS_def custom_lookup_def
  default_lookup_def if_truthy_def truthy_num_def inf_times_def get_property_def
  object_prototype_keys_def

lemmas metrics_defs = calculateDashboardMetrics_def run_orders_def order_step_def
  initial_state_def js_sub_def


lemmas ad_defs = ad_spend_handler_def meta_step_def google_step_def add_entry_def
  fetchMetaAdSpend_def fetchGoogleAdSpend_def call_order_def call_fails_def fetch_for_def

lemma js_add_zero_right: "js_add x (Fin 0) = x"
  by (cases x) simp_all

lemma js_add_zero_left: "js_add (Fin 0) x = x"
  by (cases x) simp_all

lemma js_add_NaN_right: "js_add x NaN = NaN"
  by (cases x) simp_all

lemma run_orders_append:
  "run_orders ss st (xs @ ys) = run_orders ss (run_orders ss st xs) ys"
  by (simp add: run_orders_def)

lemma run_orders_Cons:
  "run_orders ss st (x # xs) = run_orders ss (order_step ss st x) xs"
  by (simp add: run_orders_def)

lemma run_orders_Nil: "run_orders ss st [] = st"
  by (simp add: run_orders_def)

lemma revenue_sum_step:
  "revenue_sum (order_step ss st x) = js_add (revenue_sum st) (parseFloat (total_price x))"
  by (simp add: order_step_def Let_def)

lemma orderCOGS_map:
  "orderCOGS ss ord = foldl js_add (Fin 0) (map (itemCOGS ss) (line_items ord))"
  by (simp add: orderCOGS_def foldl_map)

text \<open>An order enters a round only through its total price, its email and its COGS.\<close>

lemma order_step_cong:
  assumes "total_price a = total_price b" and "email a = email b"
      and "orderCOGS ss a = orderCOGS ss b"
  shows "order_step ss st a = order_step ss st b"
  by (simp only: order_step_def assms)

lemma metrics_cong:
  assumes "order_step ss (run_orders ss initial_state pre) a =
           order_step ss (run_orders ss initial_state pre) b"
  shows "calculateDashboardMetrics (pre @ a # post) ss =
         calculateDashboardMetrics (pre @ b # post) ss"
  using assms by (simp add: calculateDashboardMetrics_def run_orders_append run_orders_Cons)

section \<open>Properties\<close>

subsection \<open>Gross profit\<close>

text \<open>
  Claim C1. For every list of orders and every settings object, the gross profit that
  \<open>calculateDashboardMetrics\<close> returns is the total revenue minus the total COGS of the
  same result, computed with the subtraction of JavaScript numbers.
\<close>

theorem grossProfit_is_revenue_minus_cogs:
  "grossProfit (calculateDashboardMetrics orders storeSettings) =
     js_sub (totalRevenue (calculateDashboardMetrics orders storeSettings))
            (totalCOGS (calculateDashboardMetrics orders storeSettings))"
  by (simp add: calculateDashboardMetrics_def Let_def)

subsection \<open>A custom cost of zero\<close>

text \<open>
  Claim C2 says that a SKU that is a key of \<open>customCOGS\<close> always gets its mapped cost,
  also when that cost is 0. The test in the code is the truthiness of the looked-up
  value, so a mapped cost of 0 is passed over: with a default percentage of 30, an item
  of SKU \<open>X\<close> and price 10.00 whose custom cost is 0 gets the unit cost 3, and the total
  COGS of an order with one such item is 3 instead of 0.
\<close>

theorem zero_custom_cost_falls_through:
  "unitCOGS
      (Some \<lparr>defaultCOGSPercentage = Some (Fin 30), customCOGS = Some [''X'' \<mapsto> Fin 0]\<rparr>)
      \<lparr>sku = Str ''X'', quantity = 1, price = Str ''10.00''\<rparr> = Fin 3
   \<and> totalCOGS (calculateDashboardMetrics
        [\<lparr>total_price = Str ''10.00'', email = Null,
          line_items = [\<lparr>sku = Str ''X'', quantity = 1, price = Str ''10.00''\<rparr>]\<rparr>]
        (Some \<lparr>defaultCOGSPercentage = Some (Fin 30), customCOGS = Some [''X'' \<mapsto> Fin 0]\<rparr>))
     = Fin 3"
  by (simp add: metrics_defs cogs_defs parse_defs)

subsection \<open>Prices that are not numbers\<close>

lemma revenue_sum_NaN_stays:
  "revenue_sum st = NaN \<Longrightarrow> revenue_sum (run_orders ss st os) = NaN"
proof (induction os arbitrary: st)
  case Nil
  then show ?case by (simp add: run_orders_Nil)
next
  case (Cons x xs)
  have "revenue_sum (order_step ss st x) = NaN"
    using Cons.prems by (simp add: revenue_sum_step)
  then show ?case by (simp add: run_orders_Cons Cons.IH)
qed

lemma revenue_NaN_order:
  assumes "parseFloat (total_price ord) = NaN"
  shows "revenue_sum (run_orders ss st (pre @ ord # post)) = NaN"
proof -
  have "revenue_sum (order_step ss (run_orders ss st pre) ord) = NaN"
    by (simp add: revenue_sum_step assms js_add_NaN_right)
  then show ?thesis
    by (simp add: run_orders_append run_orders_Cons revenue_sum_NaN_stays)
qed

lemma unitCOGS_price_irrelevant:
  assumes "if_truthy (custom_lookup ss (sku it)) \<noteq> None \<or> if_truthy (default_lookup ss) = None"
  shows "unitCOGS ss (it\<lparr>price := p\<rparr>) = unitCOGS ss it"
  using assms by (auto simp: unitCOGS_def split: option.splits)

lemma itemCOGS_price_irrelevant:
  assumes "if_truthy (custom_lookup ss (sku it)) \<noteq> None \<or> if_truthy (default_lookup ss) = None"
  shows "itemCOGS ss (it\<lparr>price := p\<rparr>) = itemCOGS ss it"
  by (simp add: itemCOGS_def unitCOGS_price_irrelevant [OF assms])

text \<open>
  Claim C3 says that a missing or non-numeric \<open>total_price\<close> or item price counts as 0.
  The function has no such guard. An order without \<open>total_price\<close> gives the total
  revenue NaN where the price 0 gives 0, and an item with the price \<open>n/a\<close> under a
  default percentage of 30 gives the total COGS NaN where the price 0 gives 0.
\<close>

theorem nan_guard_counterexample:
  "totalRevenue (calculateDashboardMetrics
      [\<lparr>total_price = Undefined, email = Null, line_items = []\<rparr>] None) = NaN
   \<and> totalRevenue (calculateDashboardMetrics
      [\<lparr>total_price = Str ''0'', email = Null, line_items = []\<rparr>] None) = Fin 0
   \<and> totalCOGS (calculateDashboardMetrics
      [\<lparr>total_price = Str ''20.00'', email = Null,
        line_items = [\<lparr>sku = Str ''A'', quantity = 2, price = Str ''n/a''\<rparr>]\<rparr>]
      (Some \<lparr>defaultCOGSPercentage = Some (Fin 30), customCOGS = None\<rparr>)) = NaN
   \<and> totalCOGS (calculateDashboardMetrics
      [\<lparr>total_price = Str ''20.00'', email = Null,
        line_items = [\<lparr>sku = Str ''A'', quantity = 2, price = Str ''0''\<rparr>]\<rparr>]
      (Some \<lparr>defaultCOGSPercentage = Some (Fin 30), customCOGS = None\<rparr>)) = Fin 0"
  by (simp add: metrics_defs cogs_defs parse_defs)

text \<open>
  Claim C3, amended. An order whose \<open>total_price\<close> does not parse to a number makes the
  total revenue, the gross profit and the average order value NaN, wherever it stands in
  the list. The price of a line item has no effect on the metrics, so that any value
  (0 among them) may replace it, when the unit cost of the item does not come from the
  default percentage: its SKU has a truthy custom cost, or there is no truthy default
  percentage.
\<close>

theorem prices_are_not_guarded:
  "(parseFloat (total_price ord) = NaN \<longrightarrow>
      totalRevenue (calculateDashboardMetrics (pre @ ord # post) ss) = NaN
    \<and> grossProfit (calculateDashboardMetrics (pre @ ord # post) ss) = NaN
    \<and> averageOrderValue (calculateDashboardMetrics (pre @ ord # post) ss) = NaN)
   \<and> (if_truthy (custom_lookup ss (sku it)) \<noteq> None \<or> if_truthy (default_lookup ss) = None \<longrightarrow>
      calculateDashboardMetrics
        (pre @ ord\<lparr>line_items := before @ it\<lparr>price := p\<rparr> # after\<rparr> # post) ss =
      calculateDashboardMetrics
        (pre @ ord\<lparr>line_items := before @ it # after\<rparr> # post) ss)"
proof (intro conjI impI)
  assume nan: "parseFloat (total_price ord) = NaN"
  have r: "revenue_sum (run_orders ss initial_state (pre @ ord # post)) = NaN"
    by (rule revenue_NaN_order [OF nan])
  show "totalRevenue (calculateDashboardMetrics (pre @ ord # post) ss) = NaN"
    using r by (simp add: calculateDashboardMetrics_def Let_def)
  show "grossProfit (calculateDashboardMetrics (pre @ ord # post) ss) = NaN"
    using r by (simp add: calculateDashboardMetrics_def Let_def js_sub_def)
  show "averageOrderValue (calculateDashboardMetrics (pre @ ord # post) ss) = NaN"
    using r by (simp add: calculateDashboardMetrics_def Let_def)
next
  assume h: "if_truthy (custom_lookup ss (sku it)) \<noteq> None \<or> if_truthy (default_lookup ss) = None"
  have "orderCOGS ss (ord\<lparr>line_items := before @ it\<lparr>price := p\<rparr> # after\<rparr>) =
        orderCOGS ss (ord\<lparr>line_items := before @ it # after\<rparr>)"
    by (simp add: orderCOGS_map itemCOGS_price_irrelevant [OF h])
  then show "calculateDashboardMetrics
        (pre @ ord\<lparr>line_items := before @ it\<lparr>price := p\<rparr> # after\<rparr> # post) ss =
      calculateDashboardMetrics
        (pre @ ord\<lparr>line_items := before @ it # after\<rparr> # post) ss"
    by (intro metrics_cong order_step_cong) simp_all
qed

text \<open>The amended claim at an order without \<open>total_price\<close> whose one item, without a
  price, has a custom cost of 2.\<close>

theorem prices_are_not_guarded_witness:
  "parseFloat (total_price \<lparr>total_price = Undefined, email = Null, line_items = []\<rparr>) = NaN
   \<and> totalRevenue (calculateDashboardMetrics
        [\<lparr>total_price = Undefined, email = Null, line_items = []\<rparr>]
        (Some \<lparr>defaultCOGSPercentage = Some (Fin 30), customCOGS = Some [''A'' \<mapsto> Fin 2]\<rparr>)) = NaN
   \<and> if_truthy (custom_lookup
        (Some \<lparr>defaultCOGSPercentage = Some (Fin 30), customCOGS = Some [''A'' \<mapsto> Fin 2]\<rparr>)
        (sku \<lparr>sku = Str ''A'', quantity = 3, price = Undefined\<rparr>)) \<noteq> None
   \<and> calculateDashboardMetrics
        [\<lparr>total_price = Undefined, email = Null,
          line_items = [\<lparr>sku = Str ''A'', quantity = 3, price = Str ''0''\<rparr>]\<rparr>]
        (Some \<lparr>defaultCOGSPercentage = Some (Fin 30), customCOGS = Some [''A'' \<mapsto> Fin 2]\<rparr>) =
     calculateDashboardMetrics
        [\<lparr>total_price = Undefined, email = Null,
          line_items = [\<lparr>sku = Str ''A'', quantity = 3, price = Undefined\<rparr>]\<rparr>]
        (Some \<lparr>defaultCOGSPercentage = Some (Fin 30), customCOGS = Some [''A'' \<mapsto> Fin 2]\<rparr>)"
proof -
  have a: "parseFloat (total_price \<lparr>total_price = Undefined, email = Null, line_items = []\<rparr>) = NaN"
    by simp
  have b: "if_truthy (custom_lookup
        (Some \<lparr>defaultCOGSPercentage = Some (Fin 30), customCOGS = Some [''A'' \<mapsto> Fin 2]\<rparr>)
        (sku \<lparr>sku = Str ''A'', quantity = 3, price = Undefined\<rparr>)) \<noteq> None"
    by (simp add: custom_lookup_def get_property_def if_truthy_def truthy_num_def)
  show ?thesis
    using a b
      prices_are_not_guarded [where ord = "\<lparr>total_price = Undefined, email = Null, line_items = []\<rparr>"
        and pre = "[]" and post = "[]" and before = "[]" and after = "[]"
        and ss = "Some \<lparr>defaultCOGSPercentage = Some (Fin 30), customCOGS = Some [''A'' \<mapsto> Fin 2]\<rparr>"
        and it = "\<lparr>sku = Str ''A'', quantity = 3, price = Undefined\<rparr>"
        and p = "Str ''0''"]
    by simp
qed

subsection \<open>New and returning customers\<close>

lemma bounded_buckets_step:
  assumes "bounded_buckets st" and "parseFloat (total_price x) = Fin v" and "0 \<le> v"
  shows "bounded_buckets (order_step ss st x)"
proof -
  from assms(1) obtain t n r where
    st: "revenue_sum st = Fin t" "new_sum st = Fin n" "returning_sum st = Fin r"
        "0 \<le> n" "n \<le> t" "0 \<le> r" "r \<le> t"
    unfolding bounded_buckets_def by blast
  show ?thesis
    unfolding bounded_buckets_def order_step_def Let_def
    using st assms(2,3) by simp
qed

lemma bounded_buckets_run:
  assumes "bounded_buckets st"
      and "\<forall>x \<in> set os. \<exists>v\<ge>0. parseFloat (total_price x) = Fin v"
  shows "bounded_buckets (run_orders ss st os)"
  using assms
proof (induction os arbitrary: st)
  case Nil
  then show ?case by (simp add: run_orders_Nil)
next
  case (Cons x xs)
  from Cons.prems(2) obtain v where v: "0 \<le> v" "parseFloat (total_price x) = Fin v"
    by auto
  have "bounded_buckets (order_step ss st x)"
    by (rule bounded_buckets_step [OF Cons.prems(1) v(2) v(1)])
  moreover have "\<forall>y \<in> set xs. \<exists>v\<ge>0. parseFloat (total_price y) = Fin v"
    using Cons.prems(2) by simp
  ultimately show ?case
    by (simp add: run_orders_Cons Cons.IH)
qed

lemma bounded_buckets_initial: "bounded_buckets initial_state"
  by (simp add: bounded_buckets_def initial_state_def)

text \<open>The customer part of the state evolves on its own.\<close>

lemma buckets_step_agree:
  assumes "new_sum a = new_sum b" "returning_sum a = returning_sum b"
          "customerEmails a = customerEmails b"
  shows "new_sum (order_step ss a x) = new_sum (order_step ss b x)
       \<and> returning_sum (order_step ss a x) = returning_sum (order_step ss b x)
       \<and> customerEmails (order_step ss a x) = customerEmails (order_step ss b x)"
  using assms by (simp add: order_step_def Let_def)

lemma buckets_run_agree:
  assumes "new_sum a = new_sum b" "returning_sum a = returning_sum b"
          "customerEmails a = customerEmails b"
  shows "new_sum (run_orders ss a os) = new_sum (run_orders ss b os)
       \<and> returning_sum (run_orders ss a os) = returning_sum (run_orders ss b os)"
  using assms
proof (induction os arbitrary: a b)
  case Nil
  then show ?case by (simp add: run_orders_Nil)
next
  case (Cons x xs)
  note ag = buckets_step_agree [OF Cons.prems, of ss x]
  show ?case
    unfolding run_orders_Cons
    by (rule Cons.IH) (simp_all add: ag)
qed

lemma buckets_step_no_email:
  assumes "\<not> truthy_str (email x)"
  shows "new_sum (order_step ss st x) = new_sum st
       \<and> returning_sum (order_step ss st x) = returning_sum st
       \<and> customerEmails (order_step ss st x) = customerEmails st"
  using assms by (simp add: order_step_def Let_def)

lemma buckets_skip_no_email:
  assumes "\<not> truthy_str (email x)"
  shows "new_sum (run_orders ss st (pre @ x # post)) = new_sum (run_orders ss st (pre @ post))
       \<and> returning_sum (run_orders ss st (pre @ x # post)) =
         returning_sum (run_orders ss st (pre @ post))"
  unfolding run_orders_append run_orders_Cons
  by (rule buckets_run_agree) (simp_all add: buckets_step_no_email [OF assms])

text \<open>
  Claim C4 says that for every list of orders the two customer sums together are at most
  the total revenue. An order without email and without \<open>total_price\<close> gives the total
  revenue NaN, and no comparison with NaN holds; an order without email and with the
  total price -5.00 gives the total revenue -5 and both customer sums 0.
\<close>

theorem customer_buckets_counterexample:
  "\<not> js_le
       (js_add (newCustomerRevenue (calculateDashboardMetrics
                  [\<lparr>total_price = Undefined, email = Null, line_items = []\<rparr>] None))
               (returningCustomerRevenue (calculateDashboardMetrics
                  [\<lparr>total_price = Undefined, email = Null, line_items = []\<rparr>] None)))
       (totalRevenue (calculateDashboardMetrics
                  [\<lparr>total_price = Undefined, email = Null, line_items = []\<rparr>] None))
   \<and> \<not> js_le
       (js_add (newCustomerRevenue (calculateDashboardMetrics
                  [\<lparr>total_price = Str ''-5.00'', email = Null, line_items = []\<rparr>] None))
               (returningCustomerRevenue (calculateDashboardMetrics
                  [\<lparr>total_price = Str ''-5.00'', email = Null, line_items = []\<rparr>] None)))
       (totalRevenue (calculateDashboardMetrics
                  [\<lparr>total_price = Str ''-5.00'', email = Null, line_items = []\<rparr>] None))"
  by (simp add: metrics_defs parse_defs Let_def)

text \<open>
  The three sums are taken one addition after the other, each addition rounded, and the
  two customer sums add the same prices in another grouping than the total does. A
  bound on their sum would need additions without rounding, which the code does not
  have; what rounding keeps is the order of two such sums when one of them skips prices
  that are not negative. For that, a negative price is excluded in every kind of order:
  one of a returning customer can put the total below the new-customer revenue, and one
  of a new customer can put it below the returning-customer revenue, which stays 0.
\<close>

lemma negative_price_breaks_bucket_bound:
  "\<not> js_le
       (newCustomerRevenue (calculateDashboardMetrics
          [\<lparr>total_price = Str ''5.00'', email = Str ''a@x.com'', line_items = []\<rparr>,
           \<lparr>total_price = Str ''-10.00'', email = Str ''a@x.com'', line_items = []\<rparr>] None))
       (totalRevenue (calculateDashboardMetrics
          [\<lparr>total_price = Str ''5.00'', email = Str ''a@x.com'', line_items = []\<rparr>,
           \<lparr>total_price = Str ''-10.00'', email = Str ''a@x.com'', line_items = []\<rparr>] None))
   \<and> \<not> js_le
       (returningCustomerRevenue (calculateDashboardMetrics
          [\<lparr>total_price = Str ''-5.00'', email = Str ''a@x.com'', line_items = []\<rparr>] None))
       (totalRevenue (calculateDashboardMetrics
          [\<lparr>total_price = Str ''-5.00'', email = Str ''a@x.com'', line_items = []\<rparr>] None))"
  by (simp add: metrics_defs parse_defs Let_def)

text \<open>
  Claim C4, amended. When the \<open>total_price\<close> of every order parses to a finite number
  that is not negative, the new-customer revenue is at most the total revenue, and so is
  the returning-customer revenue; nothing is said of their sum. For every list of
  orders, an order whose email is absent or empty adds to neither of the two: the list
  without it has the same new-customer and returning-customer revenue.
\<close>

theorem customer_buckets_each_within_revenue:
  "((\<forall>x \<in> set orders. \<exists>v\<ge>0. parseFloat (total_price x) = Fin v) \<longrightarrow>
      js_le (newCustomerRevenue (calculateDashboardMetrics orders ss))
            (totalRevenue (calculateDashboardMetrics orders ss))
    \<and> js_le (returningCustomerRevenue (calculateDashboardMetrics orders ss))
            (totalRevenue (calculateDashboardMetrics orders ss)))
   \<and> (\<not> truthy_str (email ord) \<longrightarrow>
        newCustomerRevenue (calculateDashboardMetrics (pre @ ord # post) ss) =
        newCustomerRevenue (calculateDashboardMetrics (pre @ post) ss)
      \<and> returningCustomerRevenue (calculateDashboardMetrics (pre @ ord # post) ss) =
        returningCustomerRevenue (calculateDashboardMetrics (pre @ post) ss))"
proof (intro conjI impI)
  assume h: "\<forall>x \<in> set orders. \<exists>v\<ge>0. parseFloat (total_price x) = Fin v"
  have b: "bounded_buckets (run_orders ss initial_state orders)"
    by (rule bounded_buckets_run [OF bounded_buckets_initial h])
  from b show "js_le (newCustomerRevenue (calculateDashboardMetrics orders ss))
            (totalRevenue (calculateDashboardMetrics orders ss))"
    by (auto simp: bounded_buckets_def calculateDashboardMetrics_def Let_def)
  from b show "js_le (returningCustomerRevenue (calculateDashboardMetrics orders ss))
            (totalRevenue (calculateDashboardMetrics orders ss))"
    by (auto simp: bounded_buckets_def calculateDashboardMetrics_def Let_def)
next
  assume e: "\<not> truthy_str (email ord)"
  show "newCustomerRevenue (calculateDashboardMetrics (pre @ ord # post) ss) =
        newCustomerRevenue (calculateDashboardMetrics (pre @ post) ss)"
    by (simp add: calculateDashboardMetrics_def Let_def buckets_skip_no_email [OF e])
  show "returningCustomerRevenue (calculateDashboardMetrics (pre @ ord # post) ss) =
        returningCustomerRevenue (calculateDashboardMetrics (pre @ post) ss)"
    by (simp add: calculateDashboardMetrics_def Let_def buckets_skip_no_email [OF e])
qed

text \<open>The amended claim at three orders, the second of them without email.\<close>

theorem customer_buckets_each_within_revenue_witness:
  "parseFloat (total_price \<lparr>total_price = Str ''10.00'', email = Str ''a@x.com'', line_items = []\<rparr>) = Fin 10
   \<and> parseFloat (total_price \<lparr>total_price = Str ''5.00'', email = Null, line_items = []\<rparr>) = Fin 5
   \<and> parseFloat (total_price \<lparr>total_price = Str ''3.00'', email = Str ''a@x.com'', line_items = []\<rparr>) = Fin 3
   \<and> js_le
        (newCustomerRevenue (calculateDashboardMetrics
           [\<lparr>total_price = Str ''10.00'', email = Str ''a@x.com'', line_items = []\<rparr>,
            \<lparr>total_price = Str ''5.00'', email = Null, line_items = []\<rparr>,
            \<lparr>total_price = Str ''3.00'', email = Str ''a@x.com'', line_items = []\<rparr>] None))
        (totalRevenue (calculateDashboardMetrics
           [\<lparr>total_price = Str ''10.00'', email = Str ''a@x.com'', line_items = []\<rparr>,
            \<lparr>total_price = Str ''5.00'', email = Null, line_items = []\<rparr>,
            \<lparr>total_price = Str ''3.00'', email = Str ''a@x.com'', line_items = []\<rparr>] None))
   \<and> js_le
        (returningCustomerRevenue (calculateDashboardMetrics
           [\<lparr>total_price = Str ''10.00'', email = Str ''a@x.com'', line_items = []\<rparr>,
            \<lparr>total_price = Str ''5.00'', email = Null, line_items = []\<rparr>,
            \<lparr>total_price = Str ''3.00'', email = Str ''a@x.com'', line_items = []\<rparr>] None))
        (totalRevenue (calculateDashboardMetrics
           [\<lparr>total_price = Str ''10.00'', email = Str ''a@x.com'', line_items = []\<rparr>,
            \<lparr>total_price = Str ''5.00'', email = Null, line_items = []\<rparr>,
            \<lparr>total_price = Str ''3.00'', email = Str ''a@x.com'', line_items = []\<rparr>] None))
   \<and> \<not> truthy_str (email \<lparr>total_price = Str ''5.00'', email = Null, line_items = []\<rparr>)
   \<and> newCustomerRevenue (calculateDashboardMetrics
           [\<lparr>total_price = Str ''10.00'', email = Str ''a@x.com'', line_items = []\<rparr>,
            \<lparr>total_price = Str ''5.00'', email = Null, line_items = []\<rparr>,
            \<lparr>total_price = Str ''3.00'', email = Str ''a@x.com'', line_items = []\<rparr>] None) =
     newCustomerRevenue (calculateDashboardMetrics
           [\<lparr>total_price = Str ''10.00'', email = Str ''a@x.com'', line_items = []\<rparr>,
            \<lparr>total_price = Str ''3.00'', email = Str ''a@x.com'', line_items = []\<rparr>] None)
   \<and> returningCustomerRevenue (calculateDashboardMetrics
           [\<lparr>total_price = Str ''10.00'', email = Str ''a@x.com'', line_items = []\<rparr>,
            \<lparr>total_price = Str ''5.00'', email = Null, line_items = []\<rparr>,
            \<lparr>total_price = Str ''3.00'', email = Str ''a@x.com'', line_items = []\<rparr>] None) =
     returningCustomerRevenue (calculateDashboardMetrics
           [\<lparr>total_price = Str ''10.00'', email = Str ''a@x.com'', line_items = []\<rparr>,
            \<lparr>total_price = Str ''3.00'', email = Str ''a@x.com'', line_items = []\<rparr>] None)"
  (is "?P1 \<and> ?P2 \<and> ?P3 \<and> ?B1 \<and> ?B2 \<and> ?C \<and> ?D1 \<and> ?D2")
proof -
  note t = customer_buckets_each_within_revenue
        [where orders = "[\<lparr>total_price = Str ''10.00'', email = Str ''a@x.com'', line_items = []\<rparr>,
            \<lparr>total_price = Str ''5.00'', email = Null, line_items = []\<rparr>,
            \<lparr>total_price = Str ''3.00'', email = Str ''a@x.com'', line_items = []\<rparr>]"
         and ss = None
         and pre = "[\<lparr>total_price = Str ''10.00'', email = Str ''a@x.com'', line_items = []\<rparr>]"
         and ord = "\<lparr>total_price = Str ''5.00'', email = Null, line_items = []\<rparr>"
         and post = "[\<lparr>total_price = Str ''3.00'', email = Str ''a@x.com'', line_items = []\<rparr>]",
         unfolded append_Cons append_Nil]
  have p1: ?P1 by (simp add: parse_defs)
  have p2: ?P2 by (simp add: parse_defs)
  have p3: ?P3 by (simp add: parse_defs)
  have a: "\<forall>x \<in> set [\<lparr>total_price = Str ''10.00'', email = Str ''a@x.com'', line_items = []\<rparr>,
            \<lparr>total_price = Str ''5.00'', email = Null, line_items = []\<rparr>,
            \<lparr>total_price = Str ''3.00'', email = Str ''a@x.com'', line_items = []\<rparr>].
       \<exists>v\<ge>0. parseFloat (total_price x) = Fin v"
    by (simp add: parse_defs)
  have c: ?C by simp
  from t a have b1: ?B1 by blast
  from t a have b2: ?B2 by blast
  from t c have d1: ?D1 by blast
  from t c have d2: ?D2 by blast
  from p1 p2 p3 b1 b2 c d1 d2 show ?thesis by blast
qed

text \<open>
  Claim C6. Two orders A and B carry the same email. In the input order A, B the revenue
  of A is the new-customer revenue and the revenue of B the returning-customer revenue;
  in the input order B, A it is the other way round. So the split depends on the order
  of arrival.
\<close>

theorem same_email_split_follows_order:
  assumes "truthy_str (email A)" and "email B = email A"
  shows "newCustomerRevenue (calculateDashboardMetrics [A, B] storeSettings) =
           parseFloat (total_price A)
       \<and> returningCustomerRevenue (calculateDashboardMetrics [A, B] storeSettings) =
           parseFloat (total_price B)
       \<and> newCustomerRevenue (calculateDashboardMetrics [B, A] storeSettings) =
           parseFloat (total_price B)
       \<and> returningCustomerRevenue (calculateDashboardMetrics [B, A] storeSettings) =
           parseFloat (total_price A)"
  using assms by (simp add: metrics_defs Let_def js_add_zero_left)

text \<open>Claim C6 at an order of 10.00 and an order of 5.00 of the same customer.\<close>

theorem same_email_split_follows_order_witness:
  "truthy_str (email \<lparr>total_price = Str ''10.00'', email = Str ''a@x.com'', line_items = []\<rparr>)
   \<and> newCustomerRevenue (calculateDashboardMetrics
        [\<lparr>total_price = Str ''10.00'', email = Str ''a@x.com'', line_items = []\<rparr>,
         \<lparr>total_price = Str ''5.00'', email = Str ''a@x.com'', line_items = []\<rparr>] None) = Fin 10
   \<and> returningCustomerRevenue (calculateDashboardMetrics
        [\<lparr>total_price = Str ''10.00'', email = Str ''a@x.com'', line_items = []\<rparr>,
         \<lparr>total_price = Str ''5.00'', email = Str ''a@x.com'', line_items = []\<rparr>] None) = Fin 5
   \<and> newCustomerRevenue (calculateDashboardMetrics
        [\<lparr>total_price = Str ''5.00'', email = Str ''a@x.com'', line_items = []\<rparr>,
         \<lparr>total_price = Str ''10.00'', email = Str ''a@x.com'', line_items = []\<rparr>] None) = Fin 5
   \<and> returningCustomerRevenue (calculateDashboardMetrics
        [\<lparr>total_price = Str ''5.00'', email = Str ''a@x.com'', line_items = []\<rparr>,
         \<lparr>total_price = Str ''10.00'', email = Str ''a@x.com'', line_items = []\<rparr>] None) = Fin 10"
proof -
  have a: "truthy_str (email \<lparr>total_price = Str ''10.00'', email = Str ''a@x.com'', line_items = []\<rparr>)"
    by simp
  have b: "email \<lparr>total_price = Str ''5.00'', email = Str ''a@x.com'', line_items = []\<rparr> =
           email \<lparr>total_price = Str ''10.00'', email = Str ''a@x.com'', line_items = []\<rparr>"
    by simp
  show ?thesis
    using a same_email_split_follows_order [OF a b, of None]
    by (simp add: parse_defs)
qed

subsection \<open>Upload, then compute\<close>








subsection \<open>Items of quantity zero\<close>

text \<open>
  Claim C8 says that an item of quantity 0 adds 0 to the COGS whatever its price. With a
  default percentage of 30 and the price \<open>n/a\<close> the unit cost is NaN, and NaN times 0 is
  NaN: the order's total COGS is NaN, where the order without the item has 0. The same
  happens with the price \<open>1e400\<close>, which is read as an infinity, and, whatever the
  price, with an item of the SKU \<open>constructor\<close>, for which every mapping has an
  inherited value.
\<close>

theorem zero_quantity_counterexample:
  "itemCOGS (Some \<lparr>defaultCOGSPercentage = Some (Fin 30), customCOGS = None\<rparr>)
      \<lparr>sku = Str ''A'', quantity = 0, price = Str ''n/a''\<rparr> = NaN
   \<and> totalCOGS (calculateDashboardMetrics
      [\<lparr>total_price = Str ''20.00'', email = Null,
        line_items = [\<lparr>sku = Str ''A'', quantity = 0, price = Str ''n/a''\<rparr>]\<rparr>]
      (Some \<lparr>defaultCOGSPercentage = Some (Fin 30), customCOGS = None\<rparr>)) = NaN
   \<and> totalCOGS (calculateDashboardMetrics
      [\<lparr>total_price = Str ''20.00'', email = Null, line_items = []\<rparr>]
      (Some \<lparr>defaultCOGSPercentage = Some (Fin 30), customCOGS = None\<rparr>)) = Fin 0
   \<and> itemCOGS (Some \<lparr>defaultCOGSPercentage = Some (Fin 30), customCOGS = None\<rparr>)
      \<lparr>sku = Str ''A'', quantity = 0, price = Str ''1e400''\<rparr> = NaN
   \<and> itemCOGS (Some \<lparr>defaultCOGSPercentage = None, customCOGS = Some Map.empty\<rparr>)
      \<lparr>sku = Str ''constructor'', quantity = 0, price = Str ''20.00''\<rparr> = NaN"
  by (simp add: metrics_defs cogs_defs parse_defs)

text \<open>Where \<open>finite_unit_cost\<close> holds, the unit cost is a finite number.\<close>

lemma finite_unit_cost_Fin:
  assumes "finite_unit_cost ss it"
  shows "\<exists>c. unitCOGS ss it = Fin c"
proof (cases "if_truthy (custom_lookup ss (sku it))")
  case (Some x)
  with assms have "is_fin x" by (simp add: finite_unit_cost_def)
  then obtain a where "x = Fin a" by (cases x) simp_all
  with Some show ?thesis by (simp add: unitCOGS_def)
next
  case None
  show ?thesis
  proof (cases "if_truthy (default_lookup ss)")
    case None
    with \<open>if_truthy (custom_lookup ss (sku it)) = None\<close> show ?thesis
      by (simp add: unitCOGS_def)
  next
    case (Some y)
    with None assms have y: "magnitude_at_most y 100" and p: "is_fin (parseFloat (price it))"
      by (simp_all add: finite_unit_cost_def)
    from y obtain d where d: "y = Fin d" by (cases y) simp_all
    from p obtain q where q: "parseFloat (price it) = Fin q"
      by (cases "parseFloat (price it)") simp_all
    have "unitCOGS ss it = Fin (q * (d / 100))"
      using None Some d q by (simp add: unitCOGS_def)
    then show ?thesis by blast
  qed
qed

text \<open>
  Claim C8, amended. A line item of quantity 0 whose unit cost is surely finite adds 0 to
  the COGS of its order: the order's COGS, and the total COGS of any list of orders that
  holds the order, are those of the order without the item. The unit cost is surely
  finite when the SKU has a truthy custom cost that is finite; or when the SKU has no
  truthy custom value, own or inherited, and the default percentage is absent, 0 or NaN;
  or when the SKU has no truthy custom value, the default percentage has a magnitude of
  at most 100 and the price parses to a finite number.
\<close>

theorem zero_quantity_contributes_nothing:
  assumes "quantity it = 0" and "finite_unit_cost ss it"
  shows "itemCOGS ss it = Fin 0
       \<and> orderCOGS ss (ord\<lparr>line_items := before @ it # after\<rparr>) =
         orderCOGS ss (ord\<lparr>line_items := before @ after\<rparr>)
       \<and> totalCOGS (calculateDashboardMetrics
           (pre @ ord\<lparr>line_items := before @ it # after\<rparr> # post) ss) =
         totalCOGS (calculateDashboardMetrics
           (pre @ ord\<lparr>line_items := before @ after\<rparr> # post) ss)"
proof -
  from finite_unit_cost_Fin [OF assms(2)] obtain c where c: "unitCOGS ss it = Fin c"
    by blast
  have item: "itemCOGS ss it = Fin 0"
    using assms(1) c by (simp add: itemCOGS_def)
  have ord: "orderCOGS ss (ord\<lparr>line_items := before @ it # after\<rparr>) =
             orderCOGS ss (ord\<lparr>line_items := before @ after\<rparr>)"
    by (simp add: orderCOGS_map item js_add_zero_right)
  have "calculateDashboardMetrics (pre @ ord\<lparr>line_items := before @ it # after\<rparr> # post) ss =
        calculateDashboardMetrics (pre @ ord\<lparr>line_items := before @ after\<rparr> # post) ss"
    by (intro metrics_cong order_step_cong) (simp_all add: ord)
  with item ord show ?thesis by simp
qed

text \<open>The amended claim at an item of price 20.00 under a default percentage of 30, in
  an order of its own.\<close>

theorem zero_quantity_contributes_nothing_witness:
  "quantity \<lparr>sku = Str ''A'', quantity = 0, price = Str ''20.00''\<rparr> = 0
   \<and> finite_unit_cost (Some \<lparr>defaultCOGSPercentage = Some (Fin 30), customCOGS = None\<rparr>)
        \<lparr>sku = Str ''A'', quantity = 0, price = Str ''20.00''\<rparr>
   \<and> itemCOGS (Some \<lparr>defaultCOGSPercentage = Some (Fin 30), customCOGS = None\<rparr>)
        \<lparr>sku = Str ''A'', quantity = 0, price = Str ''20.00''\<rparr> = Fin 0
   \<and> totalCOGS (calculateDashboardMetrics
        [\<lparr>total_price = Str ''20.00'', email = Null,
          line_items = [\<lparr>sku = Str ''A'', quantity = 0, price = Str ''20.00''\<rparr>]\<rparr>]
        (Some \<lparr>defaultCOGSPercentage = Some (Fin 30), customCOGS = None\<rparr>)) =
     totalCOGS (calculateDashboardMetrics
        [\<lparr>total_price = Str ''20.00'', email = Null, line_items = []\<rparr>]
        (Some \<lparr>defaultCOGSPercentage = Some (Fin 30), customCOGS = None\<rparr>))"
  (is "?A \<and> ?B \<and> ?C \<and> ?D")
proof -
  have a: ?A by simp
  have b: ?B by (simp add: finite_unit_cost_def cogs_defs parse_defs)
  note t = zero_quantity_contributes_nothing [OF a b,
      where ord = "\<lparr>total_price = Str ''20.00'', email = Null, line_items = []\<rparr>"
        and before = "[]" and after = "[]" and pre = "[]" and post = "[]",
      unfolded append_Nil]
  from t have c: ?C by blast
  from t have d: ?D by simp
  from a b c d show ?thesis by blast
qed

subsection \<open>The average order value\<close>

text \<open>
  Claim C9. For the empty list of orders the average order value is 0 and nothing is
  divided. The order count is the length of the list; when it is 0 the average is 0, and
  when it is positive the average is the total revenue divided by the order count.
\<close>

theorem averageOrderValue_cases:
  "averageOrderValue (calculateDashboardMetrics [] storeSettings) = Fin 0
   \<and> orderCount (calculateDashboardMetrics orders storeSettings) = length orders
   \<and> (orderCount (calculateDashboardMetrics orders storeSettings) = 0 \<longrightarrow>
        averageOrderValue (calculateDashboardMetrics orders storeSettings) = Fin 0)
   \<and> (0 < orderCount (calculateDashboardMetrics orders storeSettings) \<longrightarrow>
        averageOrderValue (calculateDashboardMetrics orders storeSettings) =
          js_div (totalRevenue (calculateDashboardMetrics orders storeSettings))
                 (Fin (real (orderCount (calculateDashboardMetrics orders storeSettings)))))"
  by (simp add: calculateDashboardMetrics_def Let_def)

text \<open>Claim C9 at two orders of 10.00 and 5.00, and at no order.\<close>

theorem averageOrderValue_cases_witness:
  "0 < orderCount (calculateDashboardMetrics
      [\<lparr>total_price = Str ''10.00'', email = Null, line_items = []\<rparr>,
       \<lparr>total_price = Str ''5.00'', email = Null, line_items = []\<rparr>] None)
   \<and> averageOrderValue (calculateDashboardMetrics
      [\<lparr>total_price = Str ''10.00'', email = Null, line_items = []\<rparr>,
       \<lparr>total_price = Str ''5.00'', email = Null, line_items = []\<rparr>] None) =
     js_div (totalRevenue (calculateDashboardMetrics
      [\<lparr>total_price = Str ''10.00'', email = Null, line_items = []\<rparr>,
       \<lparr>total_price = Str ''5.00'', email = Null, line_items = []\<rparr>] None))
       (Fin (real (orderCount (calculateDashboardMetrics
      [\<lparr>total_price = Str ''10.00'', email = Null, line_items = []\<rparr>,
       \<lparr>total_price = Str ''5.00'', email = Null, line_items = []\<rparr>] None))))
   \<and> orderCount (calculateDashboardMetrics [] None) = 0
   \<and> averageOrderValue (calculateDashboardMetrics [] None) = Fin 0"
  (is "?A \<and> ?B \<and> ?C \<and> ?D")
proof -
  note t = averageOrderValue_cases [of None
      "[\<lparr>total_price = Str ''10.00'', email = Null, line_items = []\<rparr>,
        \<lparr>total_price = Str ''5.00'', email = Null, line_items = []\<rparr>]"]
  note u = averageOrderValue_cases [of None "[]"]
  have a: ?A by (simp add: calculateDashboardMetrics_def Let_def)
  from t a have b: ?B by blast
  have c: ?C by (simp add: calculateDashboardMetrics_def Let_def)
  from u c have d: ?D by blast
  from a b c d show ?thesis by blast
qed

subsection \<open>Ad spend\<close>

lemma meta_step_entry:
  assumes "ad_account.platform a = ''meta''"
  shows "meta_step api sd ed st a =
     \<lparr>totalAdSpend = js_add (totalAdSpend st) (total_spend (fetch_for api sd ed a)),
      breakdown = breakdown st @ [entry_for api sd ed a]\<rparr>"
  using assms
  by (simp add: meta_step_def add_entry_def fetch_for_def entry_for_def label_for_def)

lemma google_step_entry:
  assumes "ad_account.platform a = ''google''"
  shows "google_step sd ed st a =
     \<lparr>totalAdSpend = js_add (totalAdSpend st) (total_spend (fetch_for api sd ed a)),
      breakdown = breakdown st @ [entry_for api sd ed a]\<rparr>"
  using assms
  by (simp add: google_step_def add_entry_def fetch_for_def entry_for_def label_for_def)

lemma meta_fold:
  assumes "\<forall>a \<in> set xs. ad_account.platform a = ''meta''"
  shows "foldl (meta_step api sd ed) st xs =
     \<lparr>totalAdSpend =
        foldl js_add (totalAdSpend st) (map (\<lambda>a. total_spend (fetch_for api sd ed a)) xs),
      breakdown = breakdown st @ map (entry_for api sd ed) xs\<rparr>"
  using assms
proof (induction xs arbitrary: st)
  case Nil
  then show ?case by simp
next
  case (Cons a xs)
  have m: "ad_account.platform a = ''meta''" using Cons.prems by simp
  have rest: "\<forall>a \<in> set xs. ad_account.platform a = ''meta''" using Cons.prems by simp
  show ?case
    by (simp add: Cons.IH [OF rest] meta_step_entry [OF m])
qed

lemma google_fold:
  assumes "\<forall>a \<in> set xs. ad_account.platform a = ''google''"
  shows "foldl (google_step sd ed) st xs =
     \<lparr>totalAdSpend =
        foldl js_add (totalAdSpend st) (map (\<lambda>a. total_spend (fetch_for api sd ed a)) xs),
      breakdown = breakdown st @ map (entry_for api sd ed) xs\<rparr>"
  using assms
proof (induction xs arbitrary: st)
  case Nil
  then show ?case by simp
next
  case (Cons a xs)
  have g: "ad_account.platform a = ''google''" using Cons.prems by simp
  have rest: "\<forall>a \<in> set xs. ad_account.platform a = ''google''" using Cons.prems by simp
  show ?case
    by (simp add: Cons.IH [OF rest] google_step_entry [OF g, of _ _ _ api])
qed

text \<open>The handler's answer in closed form: one entry for each account of \<open>call_order\<close>,
  and the sum of their totals.\<close>

lemma handler_unfolded:
  "ad_spend_handler api adAccounts sd ed =
     \<lparr>totalAdSpend = foldl js_add (Fin 0)
         (map (\<lambda>a. total_spend (fetch_for api sd ed a)) (call_order adAccounts)),
      breakdown = map (entry_for api sd ed) (call_order adAccounts)\<rparr>"
proof -
  have m: "\<forall>a \<in> set (filter (\<lambda>a. ad_account.platform a = ''meta'') adAccounts).
             ad_account.platform a = ''meta''" by simp
  have g: "\<forall>a \<in> set (filter (\<lambda>a. ad_account.platform a = ''google'') adAccounts).
             ad_account.platform a = ''google''" by simp
  show ?thesis
    unfolding ad_spend_handler_def meta_fold [OF m] google_fold [OF g, of _ _ _ api]
    by (simp add: call_order_def)
qed

lemma failed_fetch_zero:
  assumes "call_fails api sd ed a"
  shows "fetch_for api sd ed a = \<lparr>total_spend = Fin 0, daily = []\<rparr>"
  using assms by (simp add: call_fails_def fetch_for_def fetchMetaAdSpend_def)

lemma sum_skips_failed:
  "foldl js_add z (map (\<lambda>a. total_spend (fetch_for api sd ed a)) xs) =
   foldl js_add z (map (\<lambda>a. total_spend (fetch_for api sd ed a))
                     (filter (\<lambda>a. \<not> call_fails api sd ed a) xs))"
proof (induction xs arbitrary: z)
  case Nil
  then show ?case by simp
next
  case (Cons a xs)
  show ?case
  proof (cases "call_fails api sd ed a")
    case True
    then show ?thesis
      by (simp add: failed_fetch_zero js_add_zero_right Cons.IH)
  next
    case False
    then show ?thesis by (simp add: Cons.IH)
  qed
qed

lemma entry_depends_on_own_call:
  assumes "ad_account.platform a = ''meta'' \<longrightarrow>
             api' (accountId a) (accessToken a) sd ed = api (accountId a) (accessToken a) sd ed"
  shows "entry_for api' sd ed a = entry_for api sd ed a"
  using assms by (simp add: entry_for_def fetch_for_def fetchMetaAdSpend_def)

lemma sum_skips_google:
  "foldl js_add z (map (\<lambda>a. total_spend (fetch_for api sd ed a))
       (filter (\<lambda>a. ad_account.platform a = ''google'') xs)) = z"
  by (induction xs arbitrary: z)
     (simp_all add: fetch_for_def fetchGoogleAdSpend_def js_add_zero_right)

text \<open>
  Claim C5. A read of the insights endpoint that fails makes \<open>fetchMetaAdSpend\<close> return
  the total 0 and no days, and the entry of that account in the breakdown is this zero
  entry. The breakdown has one entry for each account read; the entry of an account is
  the same under two states of the endpoint that agree on the read for this account, so
  a failure elsewhere leaves it as it is, and the entries of Google accounts do not
  depend on the endpoint at all. The total ad spend is the sum, in the order of the
  reads, of the totals of the reads that did not fail.
\<close>

theorem failed_read_is_isolated:
  "(api account_id access_token sd ed = None \<longrightarrow>
      fetchMetaAdSpend api account_id access_token sd ed = \<lparr>total_spend = Fin 0, daily = []\<rparr>)
   \<and> length (breakdown (ad_spend_handler api accts sd ed)) = length (call_order accts)
   \<and> (\<forall>i < length (call_order accts).
        call_fails api sd ed (call_order accts ! i) \<longrightarrow>
          breakdown (ad_spend_handler api accts sd ed) ! i =
            \<lparr>total_spend = Fin 0, daily = [], platform = ''Meta''\<rparr>)
   \<and> (\<forall>i < length (call_order accts).
        (ad_account.platform (call_order accts ! i) = ''meta'' \<longrightarrow>
           api' (accountId (call_order accts ! i)) (accessToken (call_order accts ! i)) sd ed =
           api (accountId (call_order accts ! i)) (accessToken (call_order accts ! i)) sd ed) \<longrightarrow>
        breakdown (ad_spend_handler api' accts sd ed) ! i =
        breakdown (ad_spend_handler api accts sd ed) ! i)
   \<and> totalAdSpend (ad_spend_handler api accts sd ed) =
       foldl js_add (Fin 0)
         (map (\<lambda>a. total_spend (fetch_for api sd ed a))
            (filter (\<lambda>a. \<not> call_fails api sd ed a) (call_order accts)))"
proof (intro conjI allI impI)
  assume "api account_id access_token sd ed = None"
  then show "fetchMetaAdSpend api account_id access_token sd ed =
      \<lparr>total_spend = Fin 0, daily = []\<rparr>"
    by (simp add: fetchMetaAdSpend_def)
next
  show "length (breakdown (ad_spend_handler api accts sd ed)) = length (call_order accts)"
    by (simp add: handler_unfolded)
next
  fix i
  assume i: "i < length (call_order accts)" and f: "call_fails api sd ed (call_order accts ! i)"
  have "entry_for api sd ed (call_order accts ! i) =
      \<lparr>total_spend = Fin 0, daily = [], platform = ''Meta''\<rparr>"
    using f by (simp add: entry_for_def failed_fetch_zero label_for_def call_fails_def)
  with i show "breakdown (ad_spend_handler api accts sd ed) ! i =
      \<lparr>total_spend = Fin 0, daily = [], platform = ''Meta''\<rparr>"
    by (simp add: handler_unfolded)
next
  fix i
  assume i: "i < length (call_order accts)"
    and same: "ad_account.platform (call_order accts ! i) = ''meta'' \<longrightarrow>
           api' (accountId (call_order accts ! i)) (accessToken (call_order accts ! i)) sd ed =
           api (accountId (call_order accts ! i)) (accessToken (call_order accts ! i)) sd ed"
  show "breakdown (ad_spend_handler api' accts sd ed) ! i =
        breakdown (ad_spend_handler api accts sd ed) ! i"
    using i entry_depends_on_own_call [of "call_order accts ! i" api' sd ed api, OF same]
    by (simp add: handler_unfolded)
next
  show "totalAdSpend (ad_spend_handler api accts sd ed) =
       foldl js_add (Fin 0)
         (map (\<lambda>a. total_spend (fetch_for api sd ed a))
            (filter (\<lambda>a. \<not> call_fails api sd ed a) (call_order accts)))"
    by (simp add: handler_unfolded sum_skips_failed [symmetric])
qed

text \<open>Claim C5 at the three sample accounts, with the read for \<open>act_1\<close> failing: its
  entry is the zero entry, the entries of \<open>act_2\<close> and of the Google account are those
  of the healthy endpoint, and the total is the 20 of \<open>act_2\<close>.\<close>

theorem failed_read_is_isolated_witness:
  "failing_api ''act_1'' ''t1'' ''2024-01-01'' ''2024-01-31'' = None
   \<and> fetchMetaAdSpend failing_api ''act_1'' ''t1'' ''2024-01-01'' ''2024-01-31'' =
       \<lparr>total_spend = Fin 0, daily = []\<rparr>
   \<and> call_fails failing_api ''2024-01-01'' ''2024-01-31'' (call_order sample_accounts ! 0)
   \<and> breakdown (ad_spend_handler failing_api sample_accounts ''2024-01-01'' ''2024-01-31'') ! 0 =
       \<lparr>total_spend = Fin 0, daily = [], platform = ''Meta''\<rparr>
   \<and> breakdown (ad_spend_handler healthy_api sample_accounts ''2024-01-01'' ''2024-01-31'') ! 1 =
     breakdown (ad_spend_handler failing_api sample_accounts ''2024-01-01'' ''2024-01-31'') ! 1
   \<and> breakdown (ad_spend_handler healthy_api sample_accounts ''2024-01-01'' ''2024-01-31'') ! 2 =
     breakdown (ad_spend_handler failing_api sample_accounts ''2024-01-01'' ''2024-01-31'') ! 2
   \<and> totalAdSpend (ad_spend_handler failing_api sample_accounts ''2024-01-01'' ''2024-01-31'') =
       Fin 20"
  (is "?A \<and> ?B \<and> ?C \<and> ?D \<and> ?E \<and> ?F \<and> ?G")
proof -
  note t = failed_read_is_isolated [where api = failing_api and api' = healthy_api
      and accts = sample_accounts and sd = "''2024-01-01''" and ed = "''2024-01-31''"
      and account_id = "''act_1''" and access_token = "''t1''"]
  have len: "length (call_order sample_accounts) = 3"
    by (simp add: call_order_def sample_accounts_def)
  have a: ?A by (simp add: failing_api_def)
  from t a have b: ?B by blast
  have c: ?C by (simp add: call_fails_def call_order_def sample_accounts_def failing_api_def)
  from t c len have d: ?D by simp
  have same1: "ad_account.platform (call_order sample_accounts ! 1) = ''meta'' \<longrightarrow>
      healthy_api (accountId (call_order sample_accounts ! 1))
        (accessToken (call_order sample_accounts ! 1)) ''2024-01-01'' ''2024-01-31'' =
      failing_api (accountId (call_order sample_accounts ! 1))
        (accessToken (call_order sample_accounts ! 1)) ''2024-01-01'' ''2024-01-31''"
    by (simp add: call_order_def sample_accounts_def failing_api_def healthy_api_def)
  from t same1 len have e: ?E by simp
  have same2: "ad_account.platform (call_order sample_accounts ! 2) = ''meta'' \<longrightarrow>
      healthy_api (accountId (call_order sample_accounts ! 2))
        (accessToken (call_order sample_accounts ! 2)) ''2024-01-01'' ''2024-01-31'' =
      failing_api (accountId (call_order sample_accounts ! 2))
        (accessToken (call_order sample_accounts ! 2)) ''2024-01-01'' ''2024-01-31''"
    by (simp add: call_order_def sample_accounts_def)
  from t same2 len have f: ?F by simp
  have v: "foldl js_add (Fin 0)
         (map (\<lambda>a. total_spend (fetch_for failing_api ''2024-01-01'' ''2024-01-31'' a))
            (filter (\<lambda>a. \<not> call_fails failing_api ''2024-01-01'' ''2024-01-31'' a)
               (call_order sample_accounts))) = Fin 20"
    by (simp add: ad_defs sample_accounts_def failing_api_def parse_defs)
  from t have "totalAdSpend
      (ad_spend_handler failing_api sample_accounts ''2024-01-01'' ''2024-01-31'') =
       foldl js_add (Fin 0)
         (map (\<lambda>a. total_spend (fetch_for failing_api ''2024-01-01'' ''2024-01-31'' a))
            (filter (\<lambda>a. \<not> call_fails failing_api ''2024-01-01'' ''2024-01-31'' a)
               (call_order sample_accounts)))"
    by blast
  with v have g: ?G by (simp only:)
  from a b c d e f g show ?thesis by blast
qed

text \<open>
  Claim C10. For all arguments \<open>fetchGoogleAdSpend\<close> returns the total 0 and no days.
  So every entry of the breakdown that is labelled Google has the total 0, and the total
  ad spend is the one the handler computes when the Google accounts are left out.
\<close>

theorem google_spend_is_always_zero:
  "fetchGoogleAdSpend account_id access_token sd ed = \<lparr>total_spend = Fin 0, daily = []\<rparr>
   \<and> (\<forall>e \<in> set (breakdown (ad_spend_handler api accts sd ed)).
        breakdown_entry.platform e = ''Google'' \<longrightarrow> total_spend e = Fin 0 \<and> daily e = [])
   \<and> totalAdSpend (ad_spend_handler api accts sd ed) =
       totalAdSpend (ad_spend_handler api
         (filter (\<lambda>a. ad_account.platform a \<noteq> ''google'') accts) sd ed)"
proof (intro conjI ballI impI)
  show "fetchGoogleAdSpend account_id access_token sd ed = \<lparr>total_spend = Fin 0, daily = []\<rparr>"
    by (simp add: fetchGoogleAdSpend_def)
next
  fix e
  assume e: "e \<in> set (breakdown (ad_spend_handler api accts sd ed))"
     and g: "breakdown_entry.platform e = ''Google''"
  from e obtain a where a: "e = entry_for api sd ed a"
    by (auto simp: handler_unfolded)
  from g a have "ad_account.platform a \<noteq> ''meta''"
    by (auto simp: entry_for_def label_for_def split: if_splits)
  then show "total_spend e = Fin 0" "daily e = []"
    by (simp_all add: a entry_for_def fetch_for_def fetchGoogleAdSpend_def)
next
  have f: "filter (\<lambda>a. ad_account.platform a \<noteq> ''google'' \<and> ad_account.platform a = ''meta'')
             accts =
           filter (\<lambda>a. ad_account.platform a = ''meta'') accts"
    by (rule filter_cong) auto
  have g: "filter (\<lambda>a. ad_account.platform a \<noteq> ''google'' \<and> ad_account.platform a = ''google'')
             accts = []"
    by simp
  show "totalAdSpend (ad_spend_handler api accts sd ed) =
       totalAdSpend (ad_spend_handler api
         (filter (\<lambda>a. ad_account.platform a \<noteq> ''google'') accts) sd ed)"
    by (simp add: handler_unfolded call_order_def sum_skips_google f g)
qed

text \<open>Claim C10 at the three sample accounts with a healthy endpoint: the third entry of
  the breakdown is the one of the Google account, and its total is 0.\<close>

theorem google_spend_is_always_zero_witness:
  "breakdown (ad_spend_handler healthy_api sample_accounts ''2024-01-01'' ''2024-01-31'') ! 2
      \<in> set (breakdown (ad_spend_handler healthy_api sample_accounts ''2024-01-01'' ''2024-01-31''))
   \<and> breakdown_entry.platform
       (breakdown (ad_spend_handler healthy_api sample_accounts ''2024-01-01'' ''2024-01-31'') ! 2)
       = ''Google''
   \<and> total_spend
       (breakdown (ad_spend_handler healthy_api sample_accounts ''2024-01-01'' ''2024-01-31'') ! 2)
       = Fin 0
   \<and> totalAdSpend (ad_spend_handler healthy_api sample_accounts ''2024-01-01'' ''2024-01-31'') =
     totalAdSpend (ad_spend_handler healthy_api
       (filter (\<lambda>a. ad_account.platform a \<noteq> ''google'') sample_accounts)
       ''2024-01-01'' ''2024-01-31'')"
  (is "?A \<and> ?B \<and> ?C \<and> ?D")
proof -
  note t = google_spend_is_always_zero [where api = healthy_api and accts = sample_accounts
      and sd = "''2024-01-01''" and ed = "''2024-01-31''"
      and account_id = "''g_1''" and access_token = "''t2''"]
  have a: ?A by (simp add: ad_defs sample_accounts_def)
  have b: ?B by (simp add: ad_defs sample_accounts_def)
  from t a b have c: ?C by blast
  from t have d: ?D by blast
  from a b c d show ?thesis by blast
qed

end
